theory Spec2Isabelle
  imports Main "HOL-Library.List_Lexorder" "HOL-Library.Char_ord"
begin

section \<open>Shared vocabulary of the cache node and the cache master\<close>

text \<open>
  Byte strings (\<^verbatim>\<open>[]byte\<close>) are character lists; \<^verbatim>\<open>len(b) == 0\<close> is \<open>b = []\<close>
  and a nil byte slice is the empty list (the code only ever takes its length).

  A Go \<^verbatim>\<open>[]string\<close> is a \<open>string list option\<close>: \<open>None\<close> is the nil slice and
  \<open>Some []\<close> the empty, non-nil one. \<^verbatim>\<open>reflect.DeepEqual\<close> tells the two apart, which is
  why the distinction is kept; equality of \<open>slice\<close> values is \<^verbatim>\<open>reflect.DeepEqual\<close>.
  Strings are ordered bytewise and lexicographically, as Go orders them.
\<close>

type_synonym bytes = string
type_synonym slice = "string list option"

definition elems :: "slice \<Rightarrow> string list" where
  "elems s = (case s of None \<Rightarrow> [] | Some xs \<Rightarrow> xs)"

definition sortSlice :: "slice \<Rightarrow> slice" where
  \<comment> \<open>\<^verbatim>\<open>sort.StringSlice(s).Sort()\<close>: in place, so a nil slice stays nil.\<close>
  "sortSlice s = map_option sort s"

text \<open>
  Error values. The two sentinels of package node are compared by identity in the code;
  every other error is built where it is returned (\<^verbatim>\<open>fmt.Errorf\<close>, \<^verbatim>\<open>errors.New\<close>) or comes
  from a library call, so it is never identical to a sentinel.
\<close>

datatype error =
    ErrDataNotFound
  | ErrDatabaseQueryTimeout
  | TransportError string
  | ReadError string
  | LostData string
  | FailedToFetch
  | DatabasesNotAvailable
  | EngineError string
  | BindError string
  | WrongParams
  | MarshalError string
  | MetaError string
  | FailUpdateNodesMap error
  | DBMasterError string
  | FailedToSendPeers
  | FailCallJoinNode error

definition errorText :: "error \<Rightarrow> string" where
  \<comment> \<open>\<^verbatim>\<open>err.Error()\<close> for the errors whose text the code uses: those of \<^verbatim>\<open>ctx.BindJSON\<close>.\<close>
  "errorText e = (case e of BindError msg \<Rightarrow> msg | _ \<Rightarrow> [])"

section \<open>Cache node: \<^verbatim>\<open>cache/node/node.go\<close>\<close>

subsection \<open>HTTP values\<close>

text \<open>
  What \<^verbatim>\<open>httpGetter.Get\<close> hands back: a transport error, or a response with a status code
  and a body whose \<^verbatim>\<open>ioutil.ReadAll\<close> either fails or yields bytes.
\<close>

datatype body_read = ReadFails string | Body bytes

datatype get_result = GetFails string | Resp nat body_read

text \<open>
  What a gin handler has written when it returns: the status, the content type header and
  the body, which is either raw bytes or the JSON rendering of a value (\<^verbatim>\<open>nil\<close>, or
  \<^verbatim>\<open>gin.H{"error": msg}\<close>).
\<close>

datatype jvalue = JNil | JErrorObj string

datatype body_out = RawBytes bytes | JSONOf jvalue

record response =
  status :: nat
  contentType :: "string option"
  payload :: body_out

definition StatusOK :: nat where "StatusOK = 200"
definition StatusBadRequest :: nat where "StatusBadRequest = 400"
definition StatusNotFound :: nat where "StatusNotFound = 404"
definition StatusInternalServerError :: nat where "StatusInternalServerError = 500"

definition ctxJSON :: "nat \<Rightarrow> jvalue \<Rightarrow> response" where
  \<comment> \<open>\<^verbatim>\<open>ctx.JSON(code, obj)\<close> of gin: the status, gin's JSON content type, \<^verbatim>\<open>obj\<close> rendered.\<close>
  "ctxJSON code obj =
     \<lparr>status = code, contentType = Some ''application/json; charset=utf-8'',
      payload = JSONOf obj\<rparr>"

subsection \<open>The node and the messages it exchanges\<close>

record PeerParam =
  Peers :: slice
  DBs :: slice

text \<open>
  \<^verbatim>\<open>masterParam\<close> of package node has the fields of \<^verbatim>\<open>master.PeerParam\<close>; one record serves
  both. The \<^verbatim>\<open>pool\<close> field holds the peers last given to \<^verbatim>\<open>pool.Set\<close>, that is the members
  of the consistent-hash ring.
\<close>

record node =
  dbs :: slice
  fastDB :: string
  peers :: slice
  masterAddr :: string
  httpAddr :: string
  nodeAddr :: string
  pool :: "string list"

definition trimSuffix :: "string \<Rightarrow> string \<Rightarrow> string" where
  \<comment> \<open>\<^verbatim>\<open>strings.TrimSuffix\<close>\<close>
  "trimSuffix s suf =
     (if length suf \<le> length s \<and> drop (length s - length suf) s = suf
      then take (length s - length suf) s else s)"

definition New :: "string \<Rightarrow> string \<Rightarrow> string \<Rightarrow> node" where
  "New http_addr node_addr master_addr =
     \<lparr>dbs = None, fastDB = [], peers = None,
      masterAddr = trimSuffix master_addr ''/'',
      httpAddr = http_addr, nodeAddr = node_addr, pool = []\<rparr>"

subsection \<open>\<^verbatim>\<open>handleGetKey\<close>\<close>

text \<open>
  \<^verbatim>\<open>node.group.Get\<close> belongs to the groupcache library; its outcome is the argument: the
  error it returned, if any, and the bytes it left in \<^verbatim>\<open>result\<close>.
\<close>

definition handleGetKey :: "error option \<times> bytes \<Rightarrow> response" where
  "handleGetKey outcome =
     (case outcome of (err, result) \<Rightarrow>
        if err = Some ErrDataNotFound then ctxJSON StatusNotFound JNil
        else if err \<noteq> None then ctxJSON StatusInternalServerError JNil
        else \<lparr>status = StatusOK,
              contentType = Some ''application/json; charset=utf-8'',
              payload = RawBytes result\<rparr>)"

subsection \<open>\<^verbatim>\<open>join\<close> and \<^verbatim>\<open>handleMeta\<close>\<close>

definition join :: "error + PeerParam \<Rightarrow> node \<Rightarrow> error option \<times> node" where
  \<comment> \<open>The argument is what the RPC \<^verbatim>\<open>Master.JoinNode\<close> gave: an error or the reply.\<close>
  "join rpc n =
     (case rpc of
        Inl e \<Rightarrow> (Some (FailCallJoinNode e), n)
      | Inr reply \<Rightarrow>
          (None, n\<lparr>pool := elems (Peers reply), peers := Peers reply, dbs := DBs reply\<rparr>))"

definition handleMeta :: "error + PeerParam \<Rightarrow> node \<Rightarrow> response \<times> node" where
  \<comment> \<open>The first argument is what \<^verbatim>\<open>ctx.BindJSON\<close> gave: an error or the parsed body.\<close>
  "handleMeta bound n =
     (case bound of
        Inl e \<Rightarrow> (ctxJSON StatusBadRequest (JErrorObj (errorText e)), n)
      | Inr params \<Rightarrow>
          (let ps = sortSlice (Peers params); ds = sortSlice (DBs params) in
           if peers n = ps \<and> dbs n = ds then (ctxJSON StatusOK JNil, n)
           else (ctxJSON StatusOK JNil, n\<lparr>pool := elems ps, peers := ps, dbs := ds\<rparr>)))"

subsection \<open>The loader: \<^verbatim>\<open>find\<close>, \<^verbatim>\<open>tryAllDBFind\<close>, \<^verbatim>\<open>fetchData\<close>, \<^verbatim>\<open>setFastDB\<close>\<close>

text \<open>
  \<^verbatim>\<open>urlutil.MakeURL\<close> is not among the sources; it is the parameter \<open>mk\<close> wherever a URL is
  built. \<open>dbGetURL\<close> is \<^verbatim>\<open>fmt.Sprintf(dbGetURLFormat, urlutil.MakeURL(url), key)\<close>.
\<close>

definition dbGetURL :: "(string \<Rightarrow> string) \<Rightarrow> string \<Rightarrow> string \<Rightarrow> string" where
  "dbGetURL mk url key = mk url @ ''/i/key/'' @ key"

text \<open>
  \<^verbatim>\<open>find\<close>, given what \<^verbatim>\<open>httpGetter.Get\<close> returned for the URL. The Go pair
  \<^verbatim>\<open>([]byte, error)\<close> is a sum; \<open>valOf\<close> and \<open>errOf\<close> read the two components back
  (the value is nil beside every error).
\<close>

definition find_db :: "string \<Rightarrow> get_result \<Rightarrow> error + bytes" where
  "find_db key res =
     (case res of
        GetFails e \<Rightarrow> Inl (TransportError e)
      | Resp code body \<Rightarrow>
          if code = StatusNotFound then Inl ErrDataNotFound
          else if code = StatusOK then
            (case body of
               ReadFails e \<Rightarrow> Inl (ReadError e)
             | Body b \<Rightarrow> if length b = 0 then Inl (LostData key) else Inr b)
          else Inl FailedToFetch)"

definition valOf :: "error + bytes \<Rightarrow> bytes" where
  "valOf r = (case r of Inl e \<Rightarrow> [] | Inr b \<Rightarrow> b)"

definition errOf :: "error + bytes \<Rightarrow> error option" where
  "errOf r = (case r of Inl e \<Rightarrow> Some e | Inr b \<Rightarrow> None)"

text \<open>
  The local variables of one call of \<^verbatim>\<open>tryAllDBFind\<close> that its goroutines share. \<open>data\<close> is
  the value offered on the channel \<^verbatim>\<open>data\<close> by the sender that the winner starts; there is at
  most one such sender that the \<^verbatim>\<open>select\<close> can meet first, since \<open>got\<close> is set with it.
\<close>

record race =
  got :: bool
  fastURL :: string
  resErr :: "error option"
  completeCount :: nat
  data :: "bytes option"

definition race0 :: race where
  "race0 = \<lparr>got = False, fastURL = [], resErr = None, completeCount = 0, data = None\<rparr>"

text \<open>
  One goroutine of the fan-out from the moment it holds the node lock: \<open>url\<close> is the database
  it was started for, \<open>res\<close> what its HTTP request returned, \<open>n\<close> is \<^verbatim>\<open>len(dbs)\<close>. The lock
  makes this section atomic. Nothing in the source assigns \<^verbatim>\<open>completeCount\<close>.
\<close>

definition complete :: "nat \<Rightarrow> string \<Rightarrow> string \<times> get_result \<Rightarrow> race \<Rightarrow> race" where
  "complete n key c st =
     (case c of (url, res) \<Rightarrow>
        (let val = valOf (find_db key res); err = errOf (find_db key res) in
         if length val > 0 \<or> err = Some ErrDataNotFound \<or> completeCount st = n then
           (if \<not> got st
            then st\<lparr>got := True, fastURL := url, resErr := err, data := Some val\<rparr>
            else st)
         else st))"

text \<open>
  The scheduler's choices during one race: \<open>completions\<close> lists the goroutines that pass
  through their locked section before the \<^verbatim>\<open>select\<close> is decided, in the order they take the
  lock, each with the database it queried and the HTTP outcome it saw; \<open>deadlineFirst\<close>
  says that the timer case of the \<^verbatim>\<open>select\<close> is taken although a value may be on offer.
\<close>

record schedule =
  completions :: "(string \<times> get_result) list"
  deadlineFirst :: bool

definition runRace :: "nat \<Rightarrow> string \<Rightarrow> (string \<times> get_result) list \<Rightarrow> race" where
  "runRace n key cs = foldl (\<lambda>st c. complete n key c st) race0 cs"

text \<open>
  What a call of the loader leaves behind: the error returned, the bytes given to
  \<^verbatim>\<open>dest.SetBytes\<close> (if it was called), the arguments of the \<^verbatim>\<open>go node.setFastDB(...)\<close>
  statements executed, in order, and the URLs requested from \<^verbatim>\<open>httpGetter\<close>.
\<close>

record load =
  err :: "error option"
  dest :: "bytes option"
  spawned :: "string list"
  requests :: "string list"

definition tryAllDBFind :: "(string \<Rightarrow> string) \<Rightarrow> string \<Rightarrow> schedule \<Rightarrow> node \<Rightarrow> load" where
  "tryAllDBFind mk key sch n =
     (let dbs0 = elems (dbs n) in
      if length dbs0 = 0 then
        \<lparr>err = Some DatabasesNotAvailable, dest = None, spawned = [], requests = []\<rparr>
      else
        (let st = runRace (length dbs0) key (completions sch);
             asked = map (\<lambda>url. dbGetURL mk url key) dbs0 in
         case (if deadlineFirst sch then None else data st) of
           None \<Rightarrow>
             \<lparr>err = Some ErrDatabaseQueryTimeout, dest = None, spawned = [[]],
              requests = asked\<rparr>
         | Some v \<Rightarrow>
             \<lparr>err = resErr st, dest = Some v,
              spawned = (if length v > 0 \<or> resErr st = Some ErrDataNotFound
                         then [fastURL st] else []),
              requests = asked\<rparr>))"

text \<open>
  \<^verbatim>\<open>fetchData\<close> reads \<^verbatim>\<open>node.fastDB\<close> without the lock, for the test and for the lookup; the
  model reads it once, so no \<^verbatim>\<open>setFastDB\<close> goroutine runs between the two reads.
\<close>

definition fetchData ::
  "(string \<Rightarrow> string) \<Rightarrow> string \<Rightarrow> get_result \<Rightarrow> schedule \<Rightarrow> node \<Rightarrow> load" where
  \<comment> \<open>\<open>fast\<close> is what the request to \<^verbatim>\<open>fastDB\<close> returns, should it be made.\<close>
  "fetchData mk key fast sch n =
     (if fastDB n = [] then tryAllDBFind mk key sch n
      else
        (let r = find_db key fast; asked = dbGetURL mk (fastDB n) key in
         if errOf r = Some ErrDataNotFound then
           \<lparr>err = errOf r, dest = None, spawned = [], requests = [asked]\<rparr>
         else if errOf r \<noteq> None then
           (let t = tryAllDBFind mk key sch n in
            t\<lparr>spawned := [] # spawned t, requests := asked # requests t\<rparr>)
         else \<lparr>err = None, dest = Some (valOf r), spawned = [], requests = [asked]\<rparr>))"

definition setFastDB :: "string \<Rightarrow> node \<Rightarrow> node" where
  "setFastDB db n = n\<lparr>fastDB := db\<rparr>"

subsection \<open>The node over time\<close>

text \<open>
  \<open>latch\<close> follows a race and returns the completion whose locked section set \<open>got\<close>:
  the winner. \<open>raceWinner\<close> is the winner whose value the \<^verbatim>\<open>select\<close> of \<^verbatim>\<open>tryAllDBFind\<close>
  received, \<open>fetchWinner\<close> the same for a call of \<^verbatim>\<open>fetchData\<close>, which races only when
  it has no \<^verbatim>\<open>fastDB\<close> or the lookup there failed.
\<close>

fun latch ::
  "nat \<Rightarrow> string \<Rightarrow> (string \<times> get_result) list \<Rightarrow> race \<Rightarrow> (string \<times> get_result) option" where
  "latch n key [] st = None"
| "latch n key (c # cs) st =
     (if \<not> got st \<and> got (complete n key c st) then Some c
      else latch n key cs (complete n key c st))"

definition raceWinner :: "string \<Rightarrow> schedule \<Rightarrow> node \<Rightarrow> (string \<times> get_result) option" where
  "raceWinner key sch n =
     (if length (elems (dbs n)) = 0 \<or> deadlineFirst sch then None
      else latch (length (elems (dbs n))) key (completions sch) race0)"

definition fetchWinner ::
  "string \<Rightarrow> get_result \<Rightarrow> schedule \<Rightarrow> node \<Rightarrow> (string \<times> get_result) option" where
  "fetchWinner key fast sch n =
     (if fastDB n = [] then raceWinner key sch n
      else if errOf (find_db key fast) = Some ErrDataNotFound then None
      else if errOf (find_db key fast) \<noteq> None then raceWinner key sch n
      else None)"

text \<open>
  The outcomes (a) and (b) of a database request: status 200 with a body that is read and not
  empty, or status 404, which \<^verbatim>\<open>find\<close> turns into DataNotFound.
\<close>

fun servedOrNotFound :: "get_result \<Rightarrow> bool" where
  "servedOrNotFound (GetFails e) = False"
| "servedOrNotFound (Resp code (ReadFails e)) = (code = 404)"
| "servedOrNotFound (Resp code (Body b)) = (code = 404 \<or> (code = 200 \<and> b \<noteq> []))"

text \<open>
  A node in operation: its state, the \<^verbatim>\<open>go node.setFastDB(...)\<close> goroutines started and not
  yet run (their arguments), and the record of race winners so far. An event is a call of
  the loader with what its environment does, the run of one waiting \<^verbatim>\<open>setFastDB\<close>
  goroutine (any of them: they are not ordered), a \<^verbatim>\<open>POST /meta\<close>, or a \<^verbatim>\<open>join\<close>.
\<close>

record system =
  theNode :: node
  waiting :: "string list"
  winners :: "(string \<times> get_result) list"

datatype event =
    Fetch string get_result schedule
  | RunSetFastDB nat
  | Meta "error + PeerParam"
  | Join "error + PeerParam"

fun stepNode :: "(string \<Rightarrow> string) \<Rightarrow> system \<Rightarrow> event \<Rightarrow> system" where
  "stepNode mk s (Fetch key fast sch) =
     s\<lparr>waiting := waiting s @ spawned (fetchData mk key fast sch (theNode s)),
       winners := winners s @
         (case fetchWinner key fast sch (theNode s) of None \<Rightarrow> [] | Some w \<Rightarrow> [w])\<rparr>"
| "stepNode mk s (RunSetFastDB i) =
     (if i < length (waiting s)
      then s\<lparr>theNode := setFastDB (waiting s ! i) (theNode s),
             waiting := take i (waiting s) @ drop (Suc i) (waiting s)\<rparr>
      else s)"
| "stepNode mk s (Meta bound) = s\<lparr>theNode := snd (handleMeta bound (theNode s))\<rparr>"
| "stepNode mk s (Join rpc) = s\<lparr>theNode := snd (join rpc (theNode s))\<rparr>"

definition startNode :: "string \<Rightarrow> string \<Rightarrow> string \<Rightarrow> system" where
  "startNode http_addr node_addr master_addr =
     \<lparr>theNode = New http_addr node_addr master_addr, waiting = [], winners = []\<rparr>"

definition runNode :: "(string \<Rightarrow> string) \<Rightarrow> system \<Rightarrow> event list \<Rightarrow> system" where
  "runNode mk s evs = foldl (stepNode mk) s evs"

section \<open>Cache master: \<^verbatim>\<open>cache/master/master.go\<close>\<close>

subsection \<open>The metadata store\<close>

record meta_store =
  content :: "string \<rightharpoonup> string"
  putCalls :: "(string \<times> string) list"

definition metaPut ::
  "error option \<Rightarrow> string \<Rightarrow> string \<Rightarrow> meta_store \<Rightarrow> error option \<times> meta_store" where
  \<comment> \<open>Modelled from the spec: \<^verbatim>\<open>meta.Meta\<close> and its \<^verbatim>\<open>Put\<close> are not among the sources. The
      metadata store durably records the value under the key; a call either fails (a
      persistence error, the stored value staying as it was) or stores the value. \<open>failing\<close>
      is the store's verdict on this call; \<open>putCalls\<close> lists the calls received.\<close>
  "metaPut failing k v st =
     (case failing of
        Some e \<Rightarrow> (Some e, st\<lparr>putCalls := putCalls st @ [(k, v)]\<rparr>)
      | None \<Rightarrow> (None, st\<lparr>content := (content st)(k \<mapsto> v), putCalls := putCalls st @ [(k, v)]\<rparr>))"

subsection \<open>The roster\<close>

type_synonym nodesMap = "string \<rightharpoonup> string"

definition httpAddrs :: "nodesMap \<Rightarrow> slice" where
  "httpAddrs p = Some (sorted_list_of_set (dom p))"

definition nodeAddrs :: "nodesMap \<Rightarrow> slice" where
  "nodeAddrs p = Some (sort (map (\<lambda>k. the (p k)) (sorted_list_of_set (dom p))))"

record JoinParam =
  HTTPAddr :: string
  NodeAddr :: string

text \<open>
  The struct \<^verbatim>\<open>Master\<close>. Its field \<^verbatim>\<open>dbs\<close> is \<open>masterDBs\<close> here, the node having a field
  of the same name. A Go map is finite; \<open>httpAddrs\<close> and \<open>nodeAddrs\<close> are the sorted keys
  and the sorted values (with repetitions) of such a roster.
\<close>

record master =
  nodesMap :: nodesMap
  masterDBs :: slice
  addr :: string
  meta :: meta_store
  nodesMapKey :: string

text \<open>
  What the master takes from outside this file: \<^verbatim>\<open>urlutil.MakeURL\<close> and the two uses of
  \<^verbatim>\<open>json.Marshal\<close>, each of which may return an error.
\<close>

record deps =
  MakeURL :: "string \<Rightarrow> string"
  marshalNodesMap :: "nodesMap \<Rightarrow> error + string"
  marshalPeerParam :: "PeerParam \<Rightarrow> error + string"

subsection \<open>\<^verbatim>\<open>updateNodesMap\<close>, \<^verbatim>\<open>JoinNode\<close>, \<^verbatim>\<open>removeNode\<close>\<close>

definition updateNodesMap ::
  "deps \<Rightarrow> error option \<Rightarrow> nodesMap \<Rightarrow> master \<Rightarrow> error option \<times> master" where
  "updateNodesMap d failing roster m =
     (case marshalNodesMap d roster of
        Inl e \<Rightarrow> (Some e, m)
      | Inr b \<Rightarrow>
          (case metaPut failing (nodesMapKey m) b (meta m) of
             (e, st) \<Rightarrow> (e, m\<lparr>meta := st\<rparr>)))"

text \<open>
  \<^verbatim>\<open>JoinNode\<close> returns the error, the value assigned to \<^verbatim>\<open>*reply\<close> (\<open>None\<close> when nothing is
  assigned) and the master afterwards. \<^verbatim>\<open>args\<close> may be nil.
\<close>

definition JoinNode ::
  "deps \<Rightarrow> error option \<Rightarrow> JoinParam option \<Rightarrow> master
     \<Rightarrow> error option \<times> PeerParam option \<times> master" where
  "JoinNode d failing args m =
     (case args of
        None \<Rightarrow> (Some WrongParams, None, m)
      | Some a \<Rightarrow>
          if HTTPAddr a = [] \<or> NodeAddr a = [] then (Some WrongParams, None, m)
          else
            (let m1 = m\<lparr>nodesMap := (nodesMap m)(MakeURL d (HTTPAddr a) \<mapsto> MakeURL d (NodeAddr a))\<rparr>
             in case updateNodesMap d failing (nodesMap m1) m1 of
                  (Some e, m2) \<Rightarrow> (Some (FailUpdateNodesMap e), None, m2)
                | (None, m2) \<Rightarrow>
                    (None, Some \<lparr>Peers = httpAddrs (nodesMap m2), DBs = masterDBs m2\<rparr>, m2)))"

definition removeNode :: "deps \<Rightarrow> error option \<Rightarrow> string \<Rightarrow> master \<Rightarrow> master" where
  "removeNode d failing node m =
     (if nodesMap m node = None then m
      else
        (let m1 = m\<lparr>nodesMap := (nodesMap m)(node := None)\<rparr>
         in snd (updateNodesMap d failing (nodesMap m1) m1)))"

subsection \<open>\<^verbatim>\<open>syncDBs\<close>, \<^verbatim>\<open>sendPeers\<close>, \<^verbatim>\<open>heartbeat\<close>\<close>

definition syncDBs :: "error + slice \<Rightarrow> master \<Rightarrow> error option \<times> master" where
  \<comment> \<open>The argument is what the database master's \<^verbatim>\<open>Peers()\<close> returned.\<close>
  "syncDBs answer m =
     (case answer of
        Inl e \<Rightarrow> (Some e, m)
      | Inr ds \<Rightarrow> (None, m\<lparr>masterDBs := ds\<rparr>))"

datatype post_result = PostFails string | PostResp nat

text \<open>
  \<^verbatim>\<open>sendPeers\<close> returns the error, the POST requests made (URL and body) and the master.
\<close>

definition sendPeers ::
  "deps \<Rightarrow> error + slice \<Rightarrow> post_result \<Rightarrow> string \<Rightarrow> slice \<Rightarrow> master
     \<Rightarrow> error option \<times> (string \<times> string) list \<times> master" where
  "sendPeers d answer posted node nodes m =
     (case syncDBs answer m of
        (Some e, m1) \<Rightarrow> (Some e, [], m1)
      | (None, m1) \<Rightarrow>
          (case marshalPeerParam d \<lparr>Peers = nodes, DBs = masterDBs m1\<rparr> of
             Inl e \<Rightarrow> (Some e, [], m1)
           | Inr b \<Rightarrow>
               (let url = MakeURL d node @ ''/meta'' in
                case posted of
                  PostFails e \<Rightarrow> (Some (TransportError e), [(url, b)], m1)
                | PostResp code \<Rightarrow>
                    if code \<noteq> StatusOK then (Some FailedToSendPeers, [(url, b)], m1)
                    else (None, [(url, b)], m1))))"

text \<open>
  What the world does for the goroutine that one tick of the heartbeat starts for one node:
  the database master's answer, the node's answer to the POST (should it be sent) and the
  metadata store's verdict on a \<^verbatim>\<open>Put\<close> (should one be made).
\<close>

record beat =
  dbMaster :: "error + slice"
  posted :: post_result
  putFails :: "error option"

definition heartbeatNode ::
  "deps \<Rightarrow> beat \<Rightarrow> string \<Rightarrow> slice \<Rightarrow> master \<Rightarrow> (string \<times> string) list \<times> master" where
  \<comment> \<open>The body of the goroutine in \<^verbatim>\<open>heartbeat\<close>.\<close>
  "heartbeatNode d b node nodePeers m =
     (case sendPeers d (dbMaster b) (posted b) node nodePeers m of
        (Some e, sent, m1) \<Rightarrow> (sent, removeNode d (putFails b) node m1)
      | (None, sent, m1) \<Rightarrow> (sent, m1))"

text \<open>
  One tick of \<^verbatim>\<open>heartbeat\<close>: the roster is read once, then one goroutine per node. They are
  run here one after the other in the order they are started. The loop itself never ends;
  \<open>heartbeat\<close> runs it for as many ticks as it is given environments.
\<close>

definition heartbeatTick ::
  "deps \<Rightarrow> (string \<Rightarrow> beat) \<Rightarrow> master \<Rightarrow> (string \<times> string) list \<times> master" where
  "heartbeatTick d world m =
     (let nodePeers = nodeAddrs (nodesMap m) in
      foldl (\<lambda>acc node.
               (case heartbeatNode d (world node) node nodePeers (snd acc) of
                  (sent, m1) \<Rightarrow> (fst acc @ sent, m1)))
            ([], m) (elems (httpAddrs (nodesMap m))))"

fun heartbeat ::
  "deps \<Rightarrow> (string \<Rightarrow> beat) list \<Rightarrow> master \<Rightarrow> (string \<times> string) list \<times> master" where
  "heartbeat d [] m = ([], m)"
| "heartbeat d (world # worlds) m =
     (case heartbeatTick d world m of
        (sent, m1) \<Rightarrow> (case heartbeat d worlds m1 of (sent', m2) \<Rightarrow> (sent @ sent', m2)))"

section \<open>Auxiliary notions and sample values\<close>

text \<open>
  A URL is accounted for by a system when it is empty or the record of winners holds it with
  an outcome (a) or (b).
\<close>

definition named :: "system \<Rightarrow> string \<Rightarrow> bool" where
  "named s u = (u = [] \<or> list_ex (\<lambda>w. fst w = u \<and> servedOrNotFound (snd w)) (winners s))"

text \<open>
  Concrete stand-ins for the parts taken as parameters, used where a statement is evaluated
  at an example: a \<open>MakeURL\<close> that puts the scheme in front when it is missing and two
  injective toy encoders.
\<close>

definition sampleMakeURL :: "string \<Rightarrow> string" where
  "sampleMakeURL a = (if take 7 a = ''http://'' then a else ''http://'' @ a)"

definition sampleDeps :: deps where
  "sampleDeps =
     \<lparr>MakeURL = sampleMakeURL,
      marshalNodesMap =
        (\<lambda>p. Inr (concat (map (\<lambda>k. k @ ''>'' @ the (p k) @ '';'') (sorted_list_of_set (dom p))))),
      marshalPeerParam =
        (\<lambda>p. Inr (concat (map (\<lambda>x. x @ '';'') (elems (Peers p))) @ ''|'' @
                  concat (map (\<lambda>x. x @ '';'') (elems (DBs p)))))\<rparr>"

definition sampleMaster :: master where
  "sampleMaster =
     \<lparr>nodesMap = [''http://n1:80'' \<mapsto> ''http://n1:90''],
      masterDBs = Some [''db1:7000''],
      addr = ''m:50'',
      meta = \<lparr>content = [''nodes'' \<mapsto> ''http://n1:80>http://n1:90;''], putCalls = []\<rparr>,
      nodesMapKey = ''nodes''\<rparr>"

definition sampleNode :: node where
  "sampleNode =
     (New ''n1:80'' ''n1:90'' ''m:50'')
       \<lparr>dbs := Some [''db1:7000'', ''db2:7000''], peers := Some [''http://n1:90''],
        pool := [''http://n1:90'']\<rparr>"

definition sampleJoin :: JoinParam where
  "sampleJoin = \<lparr>HTTPAddr = ''n2:80'', NodeAddr = ''n2:90''\<rparr>"

section \<open>Lemmas about the race\<close>

lemma complete_got_id: "got st \<Longrightarrow> complete n key c st = st"
  by (simp add: complete_def Let_def split: prod.splits)

lemma foldl_complete_got_id:
  "got st \<Longrightarrow> foldl (\<lambda>st c. complete n key c st) st cs = st"
  by (induction cs) (simp_all add: complete_got_id)

text \<open>The first two disjuncts of the election test are exactly the outcomes (a) and (b).\<close>

lemma find_db_elects:
  "(length (valOf (find_db key res)) > 0 \<or> errOf (find_db key res) = Some ErrDataNotFound)
     = servedOrNotFound res"
  by (cases res rule: servedOrNotFound.cases)
     (auto simp: find_db_def valOf_def errOf_def StatusOK_def StatusNotFound_def)

lemma served_spawns:
  "servedOrNotFound res \<Longrightarrow>
   0 < length (valOf (find_db key res)) \<or> errOf (find_db key res) = Some ErrDataNotFound"
  using find_db_elects [of key res] by auto

text \<open>
  As long as \<^verbatim>\<open>completeCount\<close> differs from \<^verbatim>\<open>len(dbs)\<close>, a completion is elected exactly
  when nobody was elected before and its outcome is (a) or (b).
\<close>

lemma complete_unfold:
  "\<not> got st \<Longrightarrow> completeCount st \<noteq> n \<Longrightarrow>
   complete n key (url, res) st =
     (if servedOrNotFound res
      then st\<lparr>got := True, fastURL := url, resErr := errOf (find_db key res),
              data := Some (valOf (find_db key res))\<rparr>
      else st)"
  using find_db_elects [of key res] by (auto simp: complete_def Let_def)

lemma race_latch:
  "\<not> got st \<Longrightarrow> completeCount st \<noteq> n \<Longrightarrow>
   foldl (\<lambda>st c. complete n key c st) st cs =
     (case latch n key cs st of
        None \<Rightarrow> st
      | Some (url, res) \<Rightarrow>
          st\<lparr>got := True, fastURL := url, resErr := errOf (find_db key res),
             data := Some (valOf (find_db key res))\<rparr>)"
proof (induction cs arbitrary: st)
  case Nil
  then show ?case by simp
next
  case (Cons c cs)
  obtain url res where c: "c = (url, res)" by (cases c)
  show ?case
  proof (cases "servedOrNotFound res")
    case True
    then show ?thesis
      using Cons.prems c by (simp add: complete_unfold foldl_complete_got_id)
  next
    case False
    then show ?thesis
      using Cons.prems c Cons.IH [of st] by (simp add: complete_unfold)
  qed
qed

lemma latch_served:
  "\<not> got st \<Longrightarrow> completeCount st \<noteq> n \<Longrightarrow> latch n key cs st = Some (url, res)
     \<Longrightarrow> servedOrNotFound res"
proof (induction cs arbitrary: st)
  case Nil
  then show ?case by simp
next
  case (Cons c cs)
  obtain u r where c: "c = (u, r)" by (cases c)
  show ?case
  proof (cases "servedOrNotFound r")
    case True
    then show ?thesis using Cons.prems c by (simp add: complete_unfold)
  next
    case False
    then show ?thesis using Cons.prems c Cons.IH [of st] by (simp add: complete_unfold)
  qed
qed

text \<open>
  The winner of a race over a non-empty database list is the first completion whose outcome
  is (a) or (b); a completion with any other outcome is never the winner, even the last.
\<close>

lemma latch_first:
  "\<not> got st \<Longrightarrow> completeCount st \<noteq> n \<Longrightarrow>
   latch n key cs st = List.find (\<lambda>c. servedOrNotFound (snd c)) cs"
proof (induction cs arbitrary: st)
  case Nil
  then show ?case by simp
next
  case (Cons c cs)
  obtain u r where c: "c = (u, r)" by (cases c)
  show ?case
    using Cons.prems c Cons.IH [of st] by (simp add: complete_unfold)
qed

lemma runRace_latch:
  "0 < n \<Longrightarrow>
   runRace n key cs =
     (case latch n key cs race0 of
        None \<Rightarrow> race0
      | Some (url, res) \<Rightarrow>
          race0\<lparr>got := True, fastURL := url, resErr := errOf (find_db key res),
                data := Some (valOf (find_db key res))\<rparr>)"
  unfolding runRace_def by (rule race_latch) (simp_all add: race0_def)

lemma runRace_no_winner:
  "0 < n \<Longrightarrow> \<not> got (runRace n key cs) \<Longrightarrow> data (runRace n key cs) = None"
  by (auto simp: runRace_latch race0_def split: option.splits)

lemma raceWinner_served:
  "raceWinner key sch n = Some (url, res) \<Longrightarrow> servedOrNotFound res"
proof -
  assume w: "raceWinner key sch n = Some (url, res)"
  then have n: "length (elems (dbs n)) \<noteq> 0"
    by (auto simp: raceWinner_def split: if_splits)
  with w have "latch (length (elems (dbs n))) key (completions sch) race0 = Some (url, res)"
    by (auto simp: raceWinner_def split: if_splits)
  moreover have "\<not> got race0" and "completeCount race0 \<noteq> length (elems (dbs n))"
    using n by (simp_all add: race0_def)
  ultimately show ?thesis by (rule latch_served [rotated 2])
qed

lemma tryAllDBFind_spawned:
  "spawned (tryAllDBFind mk key sch n) =
     (if elems (dbs n) = [] then []
      else case raceWinner key sch n of None \<Rightarrow> [[]] | Some (url, res) \<Rightarrow> [url])"
proof (cases "elems (dbs n) = []")
  case True
  then show ?thesis by (simp add: tryAllDBFind_def)
next
  case False
  then have n: "0 < length (elems (dbs n))" by simp
  show ?thesis
  proof (cases "latch (length (elems (dbs n))) key (completions sch) race0")
    case None
    then show ?thesis
      using False by (simp add: tryAllDBFind_def raceWinner_def runRace_latch [OF n] race0_def)
  next
    case (Some c)
    obtain url res where c: "c = (url, res)" by (cases c)
    have "servedOrNotFound res"
      using latch_served [of race0 "length (elems (dbs n))" key "completions sch" url res]
        Some c n by (simp add: race0_def)
    then show ?thesis
      using False Some c served_spawns [of res key]
      by (auto simp: tryAllDBFind_def raceWinner_def runRace_latch [OF n] race0_def)
  qed
qed

lemma fetchData_spawned:
  "u \<in> set (spawned (fetchData mk key fast sch n)) \<Longrightarrow>
   u = [] \<or> (\<exists>res. fetchWinner key fast sch n = Some (u, res))"
  by (auto simp: fetchData_def fetchWinner_def Let_def tryAllDBFind_spawned
      split: if_splits option.splits)

lemma fetchWinner_served:
  "fetchWinner key fast sch n = Some (url, res) \<Longrightarrow> servedOrNotFound res"
  by (auto simp: fetchWinner_def split: if_splits dest: raceWinner_served)

section \<open>Lemmas about the node over time\<close>

lemma named_iff:
  "named s u = (u = [] \<or> (\<exists>res. (u, res) \<in> set (winners s) \<and> servedOrNotFound res))"
  unfolding named_def list_ex_iff by force

lemma stepNode_named:
  assumes "named s (fastDB (theNode s))" and "\<forall>u \<in> set (waiting s). named s u"
  shows "named (stepNode mk s ev) (fastDB (theNode (stepNode mk s ev)))
         \<and> (\<forall>u \<in> set (waiting (stepNode mk s ev)). named (stepNode mk s ev) u)"
proof (cases ev)
  case (Fetch key fast sch)
  have w: "\<And>u. named s u \<Longrightarrow> named (stepNode mk s ev) u"
    using Fetch by (auto simp: named_iff)
  have "named (stepNode mk s ev) u"
    if "u \<in> set (spawned (fetchData mk key fast sch (theNode s)))" for u
    using fetchData_spawned [OF that] fetchWinner_served [of key fast sch "theNode s" u] Fetch
    by (auto simp: named_iff)
  then show ?thesis using assms w Fetch by auto
next
  case (RunSetFastDB i)
  show ?thesis
  proof (cases "i < length (waiting s)")
    case True
    have "set (take i (waiting s) @ drop (Suc i) (waiting s)) \<subseteq> set (waiting s)"
      using set_take_subset set_drop_subset by fastforce
    moreover have "waiting s ! i \<in> set (waiting s)" using True by simp
    ultimately show ?thesis
      using assms RunSetFastDB True by (auto simp: named_iff setFastDB_def)
  next
    case False
    then show ?thesis using assms RunSetFastDB by simp
  qed
next
  case (Meta bound)
  then show ?thesis
    using assms by (auto simp: named_iff handleMeta_def Let_def split: sum.splits)
next
  case (Join rpc)
  then show ?thesis
    using assms by (auto simp: named_iff join_def split: sum.splits)
qed

lemma runNode_named:
  "named s (fastDB (theNode s)) \<Longrightarrow> \<forall>u \<in> set (waiting s). named s u \<Longrightarrow>
   named (runNode mk s evs) (fastDB (theNode (runNode mk s evs)))"
proof (induction evs arbitrary: s)
  case Nil
  then show ?case by (simp add: runNode_def)
next
  case (Cons ev evs)
  have "runNode mk s (ev # evs) = runNode mk (stepNode mk s ev) evs"
    by (simp add: runNode_def)
  then show ?case
    using Cons.IH [of "stepNode mk s ev"] stepNode_named [OF Cons.prems] by simp
qed

section \<open>Lemmas about the master\<close>

lemma updateNodesMap_nodesMap: "nodesMap (snd (updateNodesMap d failing roster m)) = nodesMap m"
  by (simp add: updateNodesMap_def metaPut_def split: sum.splits option.splits prod.splits)

lemma removeNode_gone: "nodesMap (removeNode d failing node m) node = None"
  by (simp add: removeNode_def Let_def updateNodesMap_nodesMap)

text \<open>
  Whatever makes \<^verbatim>\<open>sendPeers\<close> return an error, the goroutine of the heartbeat removes the
  node; a failed refresh of the database list is one such cause, and then no POST is made.
\<close>

lemma heartbeatNode_refresh_fails:
  "heartbeatNode d \<lparr>dbMaster = Inl e, posted = p, putFails = pf\<rparr> node nodePeers m
     = ([], removeNode d pf node m)"
  by (simp add: heartbeatNode_def sendPeers_def syncDBs_def)

section \<open>Properties\<close>

subsection \<open>The heartbeat and a failed refresh of the database list\<close>

text \<open>
  C1. The claim: in the heartbeat, a failure to refresh the database list skips the broadcast
  and never causes a node to be evicted. Evaluated on a roster of one healthy node (its
  \<^verbatim>\<open>POST /meta\<close> would answer 200) while the database master fails: no POST is made, the node
  is removed from the roster and the emptied roster is written to the metadata store. With
  the database master answering, the same tick posts to the node and keeps it.
\<close>

theorem heartbeat_refresh_failure_evicts:
  "heartbeat sampleDeps
      [\<lambda>node. \<lparr>dbMaster = Inl (DBMasterError ''down''), posted = PostResp 200, putFails = None\<rparr>]
      sampleMaster
     = ([], sampleMaster\<lparr>nodesMap := Map.empty,
                         meta := \<lparr>content = [''nodes'' \<mapsto> []], putCalls = [(''nodes'', [])]\<rparr>\<rparr>)
   \<and> heartbeat sampleDeps
      [\<lambda>node. \<lparr>dbMaster = Inr (Some [''db1:7000'']), posted = PostResp 200, putFails = None\<rparr>]
      sampleMaster
     = ([(''http://n1:80/meta'', ''http://n1:90;|db1:7000;'')], sampleMaster)"
  by (simp add: heartbeatTick_def heartbeatNode_def sendPeers_def syncDBs_def removeNode_def
      updateNodesMap_def metaPut_def httpAddrs_def nodeAddrs_def elems_def sampleDeps_def
      sampleMaster_def sampleMakeURL_def StatusOK_def Let_def)

subsection \<open>The race\<close>

text \<open>
  C2. The claim: the winner of the race is the first outcome that is (a) a 200 with a body,
  (b) DataNotFound or (c) the last outstanding completion, so that a race in which every
  database fails ends with the last completion as winner and does not wait for the
  deadline. Evaluated on races in which every database has answered with an error before the
  deadline, over one database and over two: nobody is elected, the call returns
  DatabaseQueryTimeout and starts the goroutine that clears \<^verbatim>\<open>fastDB\<close>.
\<close>

theorem race_all_errors_times_out:
  "tryAllDBFind sampleMakeURL ''k''
      \<lparr>completions = [(''db1:7000'', Resp 500 (Body []))], deadlineFirst = False\<rparr>
      (sampleNode\<lparr>dbs := Some [''db1:7000'']\<rparr>)
     = \<lparr>err = Some ErrDatabaseQueryTimeout, dest = None, spawned = [[]],
        requests = [''http://db1:7000/i/key/k'']\<rparr>
   \<and> tryAllDBFind sampleMakeURL ''k''
      \<lparr>completions = [(''db2:7000'', GetFails ''refused''), (''db1:7000'', Resp 500 (Body []))],
       deadlineFirst = False\<rparr>
      sampleNode
     = \<lparr>err = Some ErrDatabaseQueryTimeout, dest = None, spawned = [[]],
        requests = [''http://db1:7000/i/key/k'', ''http://db2:7000/i/key/k'']\<rparr>"
  by (simp add: tryAllDBFind_def runRace_def complete_def race0_def find_db_def valOf_def
      errOf_def elems_def sampleNode_def New_def dbGetURL_def sampleMakeURL_def StatusOK_def
      StatusNotFound_def Let_def)

text \<open>
  C3. After a race, the only URL other than the empty one that is handed to \<^verbatim>\<open>setFastDB\<close> is
  that of the winner, whose outcome was a 200 with a non-empty body or DataNotFound.
  Consequently, however a node has run since it was created (loader calls, \<^verbatim>\<open>setFastDB\<close>
  goroutines run in any order, heartbeats, joins), a non-empty \<^verbatim>\<open>fastDB\<close> is the URL of the
  winner of an earlier race with one of those two outcomes.
\<close>

theorem fastDB_names_a_winner:
  "(\<forall>u \<in> set (spawned (tryAllDBFind mk key sch n)).
      u = [] \<or> (\<exists>res. raceWinner key sch n = Some (u, res) \<and> servedOrNotFound res))
   \<and> (fastDB (theNode (runNode mk (startNode http_addr node_addr master_addr) evs)) \<noteq> [] \<longrightarrow>
       (\<exists>res. (fastDB (theNode (runNode mk (startNode http_addr node_addr master_addr) evs)), res)
                 \<in> set (winners (runNode mk (startNode http_addr node_addr master_addr) evs))
              \<and> servedOrNotFound res))"
proof
  show "\<forall>u \<in> set (spawned (tryAllDBFind mk key sch n)).
      u = [] \<or> (\<exists>res. raceWinner key sch n = Some (u, res) \<and> servedOrNotFound res)"
    by (auto simp: tryAllDBFind_spawned split: if_splits option.splits dest: raceWinner_served)
next
  let ?s = "startNode http_addr node_addr master_addr"
  have "named ?s (fastDB (theNode ?s))" and "\<forall>u \<in> set (waiting ?s). named ?s u"
    by (simp_all add: startNode_def New_def named_iff)
  then have "named (runNode mk ?s evs) (fastDB (theNode (runNode mk ?s evs)))"
    by (rule runNode_named)
  then show "fastDB (theNode (runNode mk ?s evs)) \<noteq> [] \<longrightarrow>
       (\<exists>res. (fastDB (theNode (runNode mk ?s evs)), res) \<in> set (winners (runNode mk ?s evs))
              \<and> servedOrNotFound res)"
    unfolding named_iff by blast
qed

theorem fastDB_names_a_winner_witness:
  "''db1:7000'' \<in> set (spawned (tryAllDBFind sampleMakeURL ''k''
        \<lparr>completions = [(''db2:7000'', GetFails ''refused''),
                        (''db1:7000'', Resp 200 (Body ''v1''))],
         deadlineFirst = False\<rparr> sampleNode))
   \<and> (\<exists>res. raceWinner ''k''
        \<lparr>completions = [(''db2:7000'', GetFails ''refused''),
                        (''db1:7000'', Resp 200 (Body ''v1''))],
         deadlineFirst = False\<rparr> sampleNode = Some (''db1:7000'', res) \<and> servedOrNotFound res)
   \<and> fastDB (theNode (runNode sampleMakeURL (startNode ''n1:80'' ''n1:90'' ''m:50'')
        [Join (Inr \<lparr>Peers = Some [''http://n1:80''], DBs = Some [''db1:7000'', ''db2:7000'']\<rparr>),
         Fetch ''k'' (GetFails [])
           \<lparr>completions = [(''db2:7000'', GetFails ''refused''),
                           (''db1:7000'', Resp 200 (Body ''v1''))],
            deadlineFirst = False\<rparr>,
         RunSetFastDB 0])) = ''db1:7000''
   \<and> (\<exists>res. (''db1:7000'', res) \<in> set (winners
        (runNode sampleMakeURL (startNode ''n1:80'' ''n1:90'' ''m:50'')
        [Join (Inr \<lparr>Peers = Some [''http://n1:80''], DBs = Some [''db1:7000'', ''db2:7000'']\<rparr>),
         Fetch ''k'' (GetFails [])
           \<lparr>completions = [(''db2:7000'', GetFails ''refused''),
                           (''db1:7000'', Resp 200 (Body ''v1''))],
            deadlineFirst = False\<rparr>,
         RunSetFastDB 0])) \<and> servedOrNotFound res)"
proof -
  let ?sch = "\<lparr>completions = [(''db2:7000'', GetFails ''refused''),
                              (''db1:7000'', Resp 200 (Body ''v1''))],
               deadlineFirst = False\<rparr>"
  let ?evs = "[Join (Inr \<lparr>Peers = Some [''http://n1:80''],
                          DBs = Some [''db1:7000'', ''db2:7000'']\<rparr>),
               Fetch ''k'' (GetFails []) ?sch, RunSetFastDB 0]"
  let ?run = "runNode sampleMakeURL (startNode ''n1:80'' ''n1:90'' ''m:50'') ?evs"
  have sp: "spawned (tryAllDBFind sampleMakeURL ''k'' ?sch sampleNode) = [''db1:7000'']"
    by (simp add: tryAllDBFind_def runRace_def complete_def race0_def find_db_def valOf_def
        errOf_def elems_def sampleNode_def New_def dbGetURL_def StatusOK_def StatusNotFound_def
        Let_def)
  have fd: "fastDB (theNode ?run) = ''db1:7000''"
    by (simp add: runNode_def startNode_def New_def join_def fetchData_def tryAllDBFind_def
        runRace_def complete_def race0_def find_db_def valOf_def errOf_def elems_def
        setFastDB_def dbGetURL_def StatusOK_def StatusNotFound_def Let_def)
  note inst = fastDB_names_a_winner [of sampleMakeURL "''k''" ?sch sampleNode
      "''n1:80''" "''n1:90''" "''m:50''" ?evs]
  have a: "\<exists>res. raceWinner ''k'' ?sch sampleNode = Some (''db1:7000'', res)
             \<and> servedOrNotFound res"
    using inst [THEN conjunct1] sp by simp
  have b: "\<exists>res. (''db1:7000'', res) \<in> set (winners ?run) \<and> servedOrNotFound res"
    using inst [THEN conjunct2] fd by simp
  show ?thesis using sp fd a b by simp
qed

text \<open>
  C4. When the databases are not an empty list and no goroutine has been elected winner by
  the time the \<^verbatim>\<open>select\<close> is decided, \<^verbatim>\<open>tryAllDBFind\<close> returns DatabaseQueryTimeout without
  setting \<^verbatim>\<open>dest\<close>, the one goroutine it starts sets \<^verbatim>\<open>fastDB\<close> to the empty string whatever
  the node's state, and \<^verbatim>\<open>handleGetKey\<close> answers that error with status 500.
\<close>

theorem race_deadline:
  assumes "elems (dbs n) \<noteq> []"
    and "\<not> got (runRace (length (elems (dbs n))) key (completions sch))"
  shows "tryAllDBFind mk key sch n =
           \<lparr>err = Some ErrDatabaseQueryTimeout, dest = None, spawned = [[]],
            requests = map (\<lambda>url. dbGetURL mk url key) (elems (dbs n))\<rparr>
         \<and> (\<forall>db \<in> set (spawned (tryAllDBFind mk key sch n)). fastDB (setFastDB db n') = [])
         \<and> status (handleGetKey (err (tryAllDBFind mk key sch n), v)) = 500"
proof -
  have "0 < length (elems (dbs n))" using assms(1) by simp
  then have "data (runRace (length (elems (dbs n))) key (completions sch)) = None"
    using assms(2) by (rule runRace_no_winner)
  then have t: "tryAllDBFind mk key sch n =
           \<lparr>err = Some ErrDatabaseQueryTimeout, dest = None, spawned = [[]],
            requests = map (\<lambda>url. dbGetURL mk url key) (elems (dbs n))\<rparr>"
    using assms(1) by (simp add: tryAllDBFind_def Let_def)
  show ?thesis
    unfolding t
    by (simp add: setFastDB_def handleGetKey_def ctxJSON_def StatusInternalServerError_def)
qed

theorem race_deadline_witness:
  "elems (dbs sampleNode) \<noteq> []
   \<and> \<not> got (runRace (length (elems (dbs sampleNode))) ''k'' [(''db2:7000'', GetFails ''refused'')])
   \<and> err (tryAllDBFind sampleMakeURL ''k''
        \<lparr>completions = [(''db2:7000'', GetFails ''refused'')], deadlineFirst = False\<rparr>
        sampleNode) = Some ErrDatabaseQueryTimeout
   \<and> fastDB (setFastDB [] (sampleNode\<lparr>fastDB := ''db1:7000''\<rparr>)) = []
   \<and> status (handleGetKey (err (tryAllDBFind sampleMakeURL ''k''
        \<lparr>completions = [(''db2:7000'', GetFails ''refused'')], deadlineFirst = False\<rparr>
        sampleNode), [])) = 500"
proof -
  let ?sch = "\<lparr>completions = [(''db2:7000'', GetFails ''refused'')], deadlineFirst = False\<rparr>"
  have h1: "elems (dbs sampleNode) \<noteq> []"
    by (simp add: sampleNode_def New_def elems_def)
  have h2: "\<not> got (runRace (length (elems (dbs sampleNode))) ''k'' (completions ?sch))"
    by (simp add: sampleNode_def New_def elems_def runRace_def complete_def race0_def
        find_db_def valOf_def errOf_def Let_def)
  note inst =
    race_deadline [OF h1 h2, of sampleMakeURL "sampleNode\<lparr>fastDB := ''db1:7000''\<rparr>" "[]"]
  have e: "err (tryAllDBFind sampleMakeURL ''k'' ?sch sampleNode) = Some ErrDatabaseQueryTimeout"
    using inst [THEN conjunct1] by simp
  have f: "\<forall>db \<in> set (spawned (tryAllDBFind sampleMakeURL ''k'' ?sch sampleNode)).
             fastDB (setFastDB db (sampleNode\<lparr>fastDB := ''db1:7000''\<rparr>)) = []"
    using inst [THEN conjunct2, THEN conjunct1] .
  have "[] \<in> set (spawned (tryAllDBFind sampleMakeURL ''k'' ?sch sampleNode))"
    using inst [THEN conjunct1] by simp
  with f have c: "fastDB (setFastDB [] (sampleNode\<lparr>fastDB := ''db1:7000''\<rparr>)) = []"
    by blast
  have s: "status (handleGetKey (err (tryAllDBFind sampleMakeURL ''k'' ?sch sampleNode), [])) = 500"
    using inst [THEN conjunct2, THEN conjunct2] .
  from h1 h2 e c s show ?thesis by simp
qed

subsection \<open>The lookup at \<^verbatim>\<open>fastDB\<close>\<close>

text \<open>
  C5. With \<^verbatim>\<open>fastDB\<close> set, \<^verbatim>\<open>fetchData\<close> asks \<^verbatim>\<open>fastDB\<close> once. On a 404 it returns DataNotFound,
  has made that one request only and starts no \<^verbatim>\<open>setFastDB\<close> goroutine, so \<^verbatim>\<open>fastDB\<close> stays
  as it is: in a node with no such goroutine waiting, nothing can run that changes it. On a
  transport error or a status other than 200 and 404 it first starts a \<^verbatim>\<open>setFastDB\<close> goroutine
  whose argument is the empty string, which leaves \<^verbatim>\<open>fastDB\<close> empty on whatever node state it
  runs and does clear the \<^verbatim>\<open>fastDB\<close> of this node when it runs next, and then the call does
  what the race over all databases does.
\<close>

theorem fastDB_single_lookup:
  assumes "fastDB n \<noteq> []"
  shows "(fast = Resp 404 body \<longrightarrow>
            fetchData mk key fast sch n =
              \<lparr>err = Some ErrDataNotFound, dest = None, spawned = [],
               requests = [dbGetURL mk (fastDB n) key]\<rparr>)
       \<and> (fast = GetFails e \<or> (fast = Resp code body \<and> code \<noteq> 200 \<and> code \<noteq> 404) \<longrightarrow>
            fetchData mk key fast sch n =
              (tryAllDBFind mk key sch n)
                \<lparr>spawned := [] # spawned (tryAllDBFind mk key sch n),
                 requests := dbGetURL mk (fastDB n) key # requests (tryAllDBFind mk key sch n)\<rparr>)
       \<and> (fast = Resp 404 body \<longrightarrow>
            theNode (stepNode mk
                      (stepNode mk \<lparr>theNode = n, waiting = [], winners = ws\<rparr> (Fetch key fast sch))
                      (RunSetFastDB i)) = n)
       \<and> (fast = GetFails e \<or> (fast = Resp code body \<and> code \<noteq> 200 \<and> code \<noteq> 404) \<longrightarrow>
            hd (spawned (fetchData mk key fast sch n)) = []
            \<and> fastDB (setFastDB (hd (spawned (fetchData mk key fast sch n))) n') = []
            \<and> fastDB (theNode (stepNode mk
                      (stepNode mk \<lparr>theNode = n, waiting = [], winners = ws\<rparr> (Fetch key fast sch))
                      (RunSetFastDB 0))) = [])"
proof -
  let ?t = "tryAllDBFind mk key sch n"
  let ?asked = "dbGetURL mk (fastDB n) key"
  have notfound: "fetchData mk key fast sch n =
      \<lparr>err = Some ErrDataNotFound, dest = None, spawned = [], requests = [?asked]\<rparr>"
    if "fast = Resp 404 body"
    using assms that
    by (simp add: fetchData_def find_db_def errOf_def Let_def StatusNotFound_def)
  have failed: "fetchData mk key fast sch n =
      ?t\<lparr>spawned := [] # spawned ?t, requests := ?asked # requests ?t\<rparr>"
    if "fast = GetFails e \<or> (fast = Resp code body \<and> code \<noteq> 200 \<and> code \<noteq> 404)"
    using assms that
    by (auto simp: fetchData_def find_db_def errOf_def Let_def StatusOK_def StatusNotFound_def)
  have stays: "theNode (stepNode mk
        (stepNode mk \<lparr>theNode = n, waiting = [], winners = ws\<rparr> (Fetch key fast sch))
        (RunSetFastDB i)) = n"
    if "fast = Resp 404 body"
    using notfound [OF that] by simp
  have cleared: "hd (spawned (fetchData mk key fast sch n)) = []
      \<and> fastDB (setFastDB (hd (spawned (fetchData mk key fast sch n))) n') = []
      \<and> fastDB (theNode (stepNode mk
            (stepNode mk \<lparr>theNode = n, waiting = [], winners = ws\<rparr> (Fetch key fast sch))
            (RunSetFastDB 0))) = []"
    if "fast = GetFails e \<or> (fast = Resp code body \<and> code \<noteq> 200 \<and> code \<noteq> 404)"
    using failed [OF that] by (simp add: setFastDB_def)
  from notfound failed stays cleared show ?thesis by blast
qed

theorem fastDB_single_lookup_witness:
  "fastDB (sampleNode\<lparr>fastDB := ''db1:7000''\<rparr>) \<noteq> []
   \<and> fetchData sampleMakeURL ''k'' (Resp 404 (Body []))
        \<lparr>completions = [(''db2:7000'', Resp 200 (Body ''v1''))], deadlineFirst = False\<rparr>
        (sampleNode\<lparr>fastDB := ''db1:7000''\<rparr>)
       = \<lparr>err = Some ErrDataNotFound, dest = None, spawned = [],
          requests = [''http://db1:7000/i/key/k'']\<rparr>
   \<and> fetchData sampleMakeURL ''k'' (Resp 503 (Body ''busy''))
        \<lparr>completions = [(''db2:7000'', Resp 200 (Body ''v1''))], deadlineFirst = False\<rparr>
        (sampleNode\<lparr>fastDB := ''db1:7000''\<rparr>)
       = \<lparr>err = None, dest = Some ''v1'', spawned = [[], ''db2:7000''],
          requests = [''http://db1:7000/i/key/k'', ''http://db1:7000/i/key/k'',
                      ''http://db2:7000/i/key/k'']\<rparr>
   \<and> fastDB (theNode (stepNode sampleMakeURL
        (stepNode sampleMakeURL
           \<lparr>theNode = sampleNode\<lparr>fastDB := ''db1:7000''\<rparr>, waiting = [], winners = []\<rparr>
           (Fetch ''k'' (Resp 404 (Body []))
              \<lparr>completions = [(''db2:7000'', Resp 200 (Body ''v1''))], deadlineFirst = False\<rparr>))
        (RunSetFastDB 0))) = ''db1:7000''
   \<and> fastDB (theNode (stepNode sampleMakeURL
        (stepNode sampleMakeURL
           \<lparr>theNode = sampleNode\<lparr>fastDB := ''db1:7000''\<rparr>, waiting = [], winners = []\<rparr>
           (Fetch ''k'' (Resp 503 (Body ''busy''))
              \<lparr>completions = [(''db2:7000'', Resp 200 (Body ''v1''))], deadlineFirst = False\<rparr>))
        (RunSetFastDB 0))) = []"
proof -
  let ?n = "sampleNode\<lparr>fastDB := ''db1:7000''\<rparr>"
  let ?sch = "\<lparr>completions = [(''db2:7000'', Resp 200 (Body ''v1''))], deadlineFirst = False\<rparr>"
  let ?s = "\<lparr>theNode = ?n, waiting = [], winners = []\<rparr>"
  have h: "fastDB ?n \<noteq> []" by simp
  have u: "dbGetURL sampleMakeURL (fastDB ?n) ''k'' = ''http://db1:7000/i/key/k''"
    by (simp add: dbGetURL_def sampleMakeURL_def)
  have t: "tryAllDBFind sampleMakeURL ''k'' ?sch ?n =
      \<lparr>err = None, dest = Some ''v1'', spawned = [''db2:7000''],
       requests = [''http://db1:7000/i/key/k'', ''http://db2:7000/i/key/k'']\<rparr>"
    by (simp add: tryAllDBFind_def runRace_def complete_def race0_def find_db_def valOf_def
        errOf_def elems_def sampleNode_def New_def dbGetURL_def sampleMakeURL_def StatusOK_def
        StatusNotFound_def Let_def)
  note nf = fastDB_single_lookup [OF h, of "Resp 404 (Body [])" "Body []" sampleMakeURL "''k''"
      ?sch "[]" 503 "[]" 0 ?n]
  note fl = fastDB_single_lookup [OF h, of "Resp 503 (Body ''busy'')" "Body ''busy''"
      sampleMakeURL "''k''" ?sch "[]" 503 "[]" 0 ?n]
  have a: "fetchData sampleMakeURL ''k'' (Resp 404 (Body [])) ?sch ?n =
      \<lparr>err = Some ErrDataNotFound, dest = None, spawned = [],
       requests = [''http://db1:7000/i/key/k'']\<rparr>"
    using nf [THEN conjunct1] u by simp
  have b: "fetchData sampleMakeURL ''k'' (Resp 503 (Body ''busy'')) ?sch ?n =
      \<lparr>err = None, dest = Some ''v1'', spawned = [[], ''db2:7000''],
       requests = [''http://db1:7000/i/key/k'', ''http://db1:7000/i/key/k'',
                   ''http://db2:7000/i/key/k'']\<rparr>"
    using fl [THEN conjunct2, THEN conjunct1] u t by simp
  have "theNode (stepNode sampleMakeURL
          (stepNode sampleMakeURL ?s (Fetch ''k'' (Resp 404 (Body [])) ?sch)) (RunSetFastDB 0)) = ?n"
    using nf [THEN conjunct2, THEN conjunct2, THEN conjunct1] by simp
  then have c: "fastDB (theNode (stepNode sampleMakeURL
          (stepNode sampleMakeURL ?s (Fetch ''k'' (Resp 404 (Body [])) ?sch)) (RunSetFastDB 0)))
        = ''db1:7000''"
    by simp
  have d: "fastDB (theNode (stepNode sampleMakeURL
          (stepNode sampleMakeURL ?s (Fetch ''k'' (Resp 503 (Body ''busy'')) ?sch))
          (RunSetFastDB 0))) = []"
    using fl [THEN conjunct2, THEN conjunct2, THEN conjunct2] by simp
  from h a b c d show ?thesis by blast
qed

subsection \<open>Joining and leaving the roster\<close>

text \<open>
  C6. When \<^verbatim>\<open>JoinNode\<close> returns no error, its last act on the metadata store was a \<^verbatim>\<open>Put\<close>
  of the encoded roster under the roster key, the store holds that encoding, the roster
  encoded maps the joining node's HTTP URL to its node URL, and the reply was built
  afterwards from that roster. When \<^verbatim>\<open>updateNodesMap\<close> fails, \<^verbatim>\<open>JoinNode\<close> returns an error that
  wraps the failure and assigns no reply; in particular a failing \<^verbatim>\<open>Put\<close> always makes the
  call return an error.
\<close>

theorem JoinNode_persists:
  "(JoinNode d failing (Some a) m = (None, reply, m') \<longrightarrow>
      (\<exists>b. marshalNodesMap d (nodesMap m') = Inr b
          \<and> content (meta m') (nodesMapKey m') = Some b
          \<and> putCalls (meta m') = putCalls (meta m) @ [(nodesMapKey m', b)])
      \<and> nodesMap m' (MakeURL d (HTTPAddr a)) = Some (MakeURL d (NodeAddr a))
      \<and> reply = Some \<lparr>Peers = httpAddrs (nodesMap m'), DBs = masterDBs m'\<rparr>)
   \<and> (HTTPAddr a \<noteq> [] \<and> NodeAddr a \<noteq> [] \<and>
      fst (updateNodesMap d failing
             ((nodesMap m)(MakeURL d (HTTPAddr a) \<mapsto> MakeURL d (NodeAddr a)))
             (m\<lparr>nodesMap := (nodesMap m)(MakeURL d (HTTPAddr a) \<mapsto> MakeURL d (NodeAddr a))\<rparr>))
        = Some e \<longrightarrow>
      fst (JoinNode d failing (Some a) m) = Some (FailUpdateNodesMap e)
      \<and> fst (snd (JoinNode d failing (Some a) m)) = None)
   \<and> (failing = Some e \<longrightarrow> fst (JoinNode d failing (Some a) m) \<noteq> None)"
  by (auto simp: JoinNode_def updateNodesMap_def metaPut_def Let_def
      split: if_splits sum.splits option.splits prod.splits)

theorem JoinNode_persists_witness:
  "fst (JoinNode sampleDeps None (Some sampleJoin) sampleMaster) = None
   \<and> content (meta (snd (snd (JoinNode sampleDeps None (Some sampleJoin) sampleMaster)))) ''nodes''
       = Some ''http://n1:80>http://n1:90;http://n2:80>http://n2:90;''
   \<and> nodesMap (snd (snd (JoinNode sampleDeps None (Some sampleJoin) sampleMaster))) ''http://n2:80''
       = Some ''http://n2:90''
   \<and> fst (JoinNode sampleDeps (Some (MetaError ''down'')) (Some sampleJoin) sampleMaster)
       = Some (FailUpdateNodesMap (MetaError ''down''))"
proof -
  let ?j = "JoinNode sampleDeps None (Some sampleJoin) sampleMaster"
  let ?r = "(nodesMap sampleMaster)(''http://n2:80'' \<mapsto> ''http://n2:90'')"
  have mk: "MakeURL sampleDeps (HTTPAddr sampleJoin) = ''http://n2:80''"
    "MakeURL sampleDeps (NodeAddr sampleJoin) = ''http://n2:90''"
    by (simp_all add: sampleDeps_def sampleJoin_def sampleMakeURL_def)
  have dom: "dom ?r = {''http://n1:80'', ''http://n2:80''}"
    by (auto simp: sampleMaster_def)
  have enc: "marshalNodesMap sampleDeps ?r
               = Inr ''http://n1:80>http://n1:90;http://n2:80>http://n2:90;''"
    by (simp add: sampleDeps_def dom) (simp add: sampleMaster_def)
  have ok: "fst ?j = None"
    using mk enc
    by (simp add: JoinNode_def updateNodesMap_def metaPut_def sampleJoin_def Let_def)
  have rm: "nodesMap (snd (snd ?j)) = ?r"
    using mk enc
    by (simp add: JoinNode_def updateNodesMap_def metaPut_def sampleJoin_def Let_def)
  have key: "nodesMapKey (snd (snd ?j)) = ''nodes''"
    using mk enc
    by (simp add: JoinNode_def updateNodesMap_def metaPut_def sampleJoin_def Let_def
        sampleMaster_def)
  have eq: "?j = (None, fst (snd ?j), snd (snd ?j))"
    using ok by (simp add: prod_eq_iff)
  note inst = JoinNode_persists [of sampleDeps None sampleJoin sampleMaster "fst (snd ?j)"
      "snd (snd ?j)" "MetaError ''down''"]
  from inst [THEN conjunct1] eq
  have "\<exists>b. marshalNodesMap sampleDeps (nodesMap (snd (snd ?j))) = Inr b
          \<and> content (meta (snd (snd ?j))) (nodesMapKey (snd (snd ?j))) = Some b
          \<and> putCalls (meta (snd (snd ?j))) =
              putCalls (meta sampleMaster) @ [(nodesMapKey (snd (snd ?j)), b)]"
    and present: "nodesMap (snd (snd ?j)) (MakeURL sampleDeps (HTTPAddr sampleJoin))
          = Some (MakeURL sampleDeps (NodeAddr sampleJoin))"
    by blast+
  then have stored: "content (meta (snd (snd ?j))) ''nodes''
      = Some ''http://n1:80>http://n1:90;http://n2:80>http://n2:90;''"
    using rm enc key by auto
  have failed: "fst (JoinNode sampleDeps (Some (MetaError ''down'')) (Some sampleJoin) sampleMaster)
       = Some (FailUpdateNodesMap (MetaError ''down''))"
    using mk enc
    by (simp add: JoinNode_def updateNodesMap_def metaPut_def sampleJoin_def Let_def)
  from ok stored present failed show ?thesis by (simp add: mk)
qed

subsection \<open>\<^verbatim>\<open>POST /meta\<close> and \<^verbatim>\<open>GET /key\<close>\<close>

text \<open>
  C7. \<^verbatim>\<open>handleMeta\<close> on a parsed body sorts the body's peers and dbs. If both are equal (as
  \<^verbatim>\<open>reflect.DeepEqual\<close> has it) to the node's peers and dbs, it answers 200 and the node is
  unchanged; otherwise it answers 200, gives the sorted peers to the pool and replaces peers
  and dbs by the sorted lists. Handling the same body a second time changes nothing.
\<close>

theorem handleMeta_idempotent:
  "(peers n = sortSlice (Peers params) \<and> dbs n = sortSlice (DBs params) \<longrightarrow>
      handleMeta (Inr params) n = (ctxJSON 200 JNil, n))
   \<and> (\<not> (peers n = sortSlice (Peers params) \<and> dbs n = sortSlice (DBs params)) \<longrightarrow>
      handleMeta (Inr params) n =
        (ctxJSON 200 JNil,
         n\<lparr>pool := elems (sortSlice (Peers params)), peers := sortSlice (Peers params),
           dbs := sortSlice (DBs params)\<rparr>))
   \<and> sorted (elems (sortSlice (Peers params))) \<and> sorted (elems (sortSlice (DBs params)))
   \<and> handleMeta (Inr params) (snd (handleMeta (Inr params) n)) =
       (ctxJSON 200 JNil, snd (handleMeta (Inr params) n))"
proof -
  let ?ps = "sortSlice (Peers params)" and ?ds = "sortSlice (DBs params)"
  have same: "peers n = ?ps \<and> dbs n = ?ds \<longrightarrow> handleMeta (Inr params) n = (ctxJSON 200 JNil, n)"
    by (simp add: handleMeta_def Let_def StatusOK_def)
  have other: "\<not> (peers n = ?ps \<and> dbs n = ?ds) \<longrightarrow>
      handleMeta (Inr params) n =
        (ctxJSON 200 JNil, n\<lparr>pool := elems ?ps, peers := ?ps, dbs := ?ds\<rparr>)"
    by (auto simp: handleMeta_def Let_def StatusOK_def)
  have srt: "sorted (elems (sortSlice xs))" for xs
    by (cases xs) (simp_all add: sortSlice_def elems_def)
  have after: "peers (snd (handleMeta (Inr params) n)) = ?ps
               \<and> dbs (snd (handleMeta (Inr params) n)) = ?ds"
    by (auto simp: handleMeta_def Let_def)
  have again: "handleMeta (Inr params) (snd (handleMeta (Inr params) n)) =
       (ctxJSON 200 JNil, snd (handleMeta (Inr params) n))"
    using after by (simp add: handleMeta_def Let_def StatusOK_def)
  from same other srt again show ?thesis by blast
qed

theorem handleMeta_idempotent_witness:
  "peers sampleNode = sortSlice (Peers \<lparr>Peers = Some [''http://n1:90''],
                                        DBs = Some [''db2:7000'', ''db1:7000'']\<rparr>)
   \<and> dbs sampleNode = sortSlice (DBs \<lparr>Peers = Some [''http://n1:90''],
                                      DBs = Some [''db2:7000'', ''db1:7000'']\<rparr>)
   \<and> handleMeta (Inr \<lparr>Peers = Some [''http://n1:90''], DBs = Some [''db2:7000'', ''db1:7000'']\<rparr>)
        sampleNode = (ctxJSON 200 JNil, sampleNode)
   \<and> peers sampleNode \<noteq> sortSlice (Peers \<lparr>Peers = Some [''http://n2:90'', ''http://n1:90''],
                                           DBs = Some [''db1:7000'']\<rparr>)
   \<and> handleMeta (Inr \<lparr>Peers = Some [''http://n2:90'', ''http://n1:90''], DBs = Some [''db1:7000'']\<rparr>)
        sampleNode
       = (ctxJSON 200 JNil,
          sampleNode\<lparr>pool := [''http://n1:90'', ''http://n2:90''],
                     peers := Some [''http://n1:90'', ''http://n2:90''],
                     dbs := Some [''db1:7000'']\<rparr>)"
proof -
  let ?same = "\<lparr>Peers = Some [''http://n1:90''], DBs = Some [''db2:7000'', ''db1:7000'']\<rparr>"
  let ?other = "\<lparr>Peers = Some [''http://n2:90'', ''http://n1:90''], DBs = Some [''db1:7000'']\<rparr>"
  have p: "peers sampleNode = sortSlice (Peers ?same)"
    by (simp add: sampleNode_def New_def sortSlice_def)
  have d: "dbs sampleNode = sortSlice (DBs ?same)"
    by (simp add: sampleNode_def New_def sortSlice_def less_eq_char_def)
  have so: "sortSlice (Peers ?other) = Some [''http://n1:90'', ''http://n2:90'']"
    "sortSlice (DBs ?other) = Some [''db1:7000'']"
    by (simp_all add: sortSlice_def less_eq_char_def)
  have q: "peers sampleNode \<noteq> sortSlice (Peers ?other)"
    unfolding so by (simp add: sampleNode_def New_def)
  have a: "handleMeta (Inr ?same) sampleNode = (ctxJSON 200 JNil, sampleNode)"
    using handleMeta_idempotent [of sampleNode ?same, THEN conjunct1] p d by blast
  have b: "handleMeta (Inr ?other) sampleNode =
      (ctxJSON 200 JNil,
       sampleNode\<lparr>pool := elems (sortSlice (Peers ?other)), peers := sortSlice (Peers ?other),
                  dbs := sortSlice (DBs ?other)\<rparr>)"
    using handleMeta_idempotent [of sampleNode ?other, THEN conjunct2, THEN conjunct1] q
    by blast
  from p d a q b show ?thesis unfolding so by (simp add: elems_def)
qed

text \<open>
  C8. The client lookup endpoint answers 200 with the raw value bytes and content type
  \<^verbatim>\<open>application/json; charset=utf-8\<close> when the cache engine succeeds, 404 when the engine's
  error is DataNotFound, and 500 for every other error.
\<close>

theorem handleGetKey_statuses:
  "(handleGetKey (None, v) =
      \<lparr>status = 200, contentType = Some ''application/json; charset=utf-8'',
       payload = RawBytes v\<rparr>)
   \<and> status (handleGetKey (Some ErrDataNotFound, v)) = 404
   \<and> (e \<noteq> ErrDataNotFound \<longrightarrow> status (handleGetKey (Some e, v)) = 500)"
  by (simp add: handleGetKey_def ctxJSON_def StatusOK_def StatusNotFound_def
      StatusInternalServerError_def)

theorem handleGetKey_statuses_witness:
  "handleGetKey (None, ''v1'') =
      \<lparr>status = 200, contentType = Some ''application/json; charset=utf-8'',
       payload = RawBytes ''v1''\<rparr>
   \<and> status (handleGetKey (Some ErrDataNotFound, ''v1'')) = 404
   \<and> ErrDatabaseQueryTimeout \<noteq> ErrDataNotFound
   \<and> status (handleGetKey (Some ErrDatabaseQueryTimeout, ''v1'')) = 500"
  using handleGetKey_statuses [of "''v1''" ErrDatabaseQueryTimeout] by simp

subsection \<open>Failed joins and removals of unknown nodes\<close>

text \<open>
  C9. When \<^verbatim>\<open>JoinNode\<close> fails because the roster could not be persisted, the roster in memory
  still holds the node just inserted, while the metadata store holds what it held before: the
  two disagree wherever they agreed before the call and the node was new.
\<close>

theorem JoinNode_no_rollback:
  "JoinNode d failing (Some a) m = (Some (FailUpdateNodesMap e), reply, m') \<Longrightarrow>
     nodesMap m' = (nodesMap m)(MakeURL d (HTTPAddr a) \<mapsto> MakeURL d (NodeAddr a))
     \<and> content (meta m') = content (meta m)
     \<and> reply = None"
  by (auto simp: JoinNode_def updateNodesMap_def metaPut_def Let_def
      split: if_splits sum.splits option.splits prod.splits)

theorem JoinNode_no_rollback_witness:
  "fst (JoinNode sampleDeps (Some (MetaError ''down'')) (Some sampleJoin) sampleMaster)
       = Some (FailUpdateNodesMap (MetaError ''down''))
   \<and> nodesMap (snd (snd (JoinNode sampleDeps (Some (MetaError ''down'')) (Some sampleJoin)
                            sampleMaster))) ''http://n2:80'' = Some ''http://n2:90''
   \<and> marshalNodesMap sampleDeps
        (nodesMap (snd (snd (JoinNode sampleDeps (Some (MetaError ''down'')) (Some sampleJoin)
                               sampleMaster))))
       = Inr ''http://n1:80>http://n1:90;http://n2:80>http://n2:90;''
   \<and> content (meta (snd (snd (JoinNode sampleDeps (Some (MetaError ''down'')) (Some sampleJoin)
                                 sampleMaster)))) ''nodes''
       = Some ''http://n1:80>http://n1:90;''"
proof -
  let ?j = "JoinNode sampleDeps (Some (MetaError ''down'')) (Some sampleJoin) sampleMaster"
  let ?r = "(nodesMap sampleMaster)(''http://n2:80'' \<mapsto> ''http://n2:90'')"
  have mk: "MakeURL sampleDeps (HTTPAddr sampleJoin) = ''http://n2:80''"
    "MakeURL sampleDeps (NodeAddr sampleJoin) = ''http://n2:90''"
    by (simp_all add: sampleDeps_def sampleJoin_def sampleMakeURL_def)
  have dom: "dom ?r = {''http://n1:80'', ''http://n2:80''}"
    by (auto simp: sampleMaster_def)
  have enc: "marshalNodesMap sampleDeps ?r
               = Inr ''http://n1:80>http://n1:90;http://n2:80>http://n2:90;''"
    by (simp add: sampleDeps_def dom) (simp add: sampleMaster_def)
  have failed: "fst ?j = Some (FailUpdateNodesMap (MetaError ''down''))"
    using mk enc
    by (simp add: JoinNode_def updateNodesMap_def metaPut_def sampleJoin_def Let_def)
  then have eq: "?j = (Some (FailUpdateNodesMap (MetaError ''down'')), fst (snd ?j), snd (snd ?j))"
    by (simp add: prod_eq_iff)
  note inst = JoinNode_no_rollback [OF eq]
  have rm: "nodesMap (snd (snd ?j)) = ?r"
    using inst [THEN conjunct1] mk by simp
  have st: "content (meta (snd (snd ?j))) = content (meta sampleMaster)"
    using inst [THEN conjunct2, THEN conjunct1] .
  from failed rm st enc show ?thesis by (simp add: sampleMaster_def)
qed

text \<open>
  C10. \<^verbatim>\<open>removeNode\<close> with an address that is not a key of the roster returns the master as it
  was: the roster, the contents of the metadata store and the list of \<^verbatim>\<open>Put\<close> calls the store
  has received are all unchanged.
\<close>

theorem removeNode_absent:
  assumes "nodesMap m node = None"
  shows "removeNode d failing node m = m
         \<and> nodesMap (removeNode d failing node m) = nodesMap m
         \<and> content (meta (removeNode d failing node m)) = content (meta m)
         \<and> putCalls (meta (removeNode d failing node m)) = putCalls (meta m)"
proof -
  have "removeNode d failing node m = m"
    using assms by (simp add: removeNode_def)
  then show ?thesis by simp
qed

theorem removeNode_absent_witness:
  "nodesMap sampleMaster ''http://n9:80'' = None
   \<and> removeNode sampleDeps None ''http://n9:80'' sampleMaster = sampleMaster
   \<and> putCalls (meta (removeNode sampleDeps None ''http://n9:80'' sampleMaster)) = []"
proof -
  have h: "nodesMap sampleMaster ''http://n9:80'' = None"
    by (simp add: sampleMaster_def)
  have "putCalls (meta sampleMaster) = []"
    by (simp add: sampleMaster_def)
  then show ?thesis using h removeNode_absent [OF h, of sampleDeps None] by simp
qed

end
